theory Spec2Isabelle
  imports Complex_Main "HOL-Library.Sublist"
begin

section \<open>Durations and instants of the standard library\<close>

text \<open>
  \<^verbatim>\<open>timer.py\<close> computes with \<^verbatim>\<open>datetime.timedelta\<close> and \<^verbatim>\<open>datetime.datetime\<close>.
  A timedelta is an exact, signed duration with microsecond resolution; it is modelled
  by its total number of microseconds. Its three read-only attributes are the
  normalised components the library keeps: \<^verbatim>\<open>days\<close> (any sign),
  \<^verbatim>\<open>seconds\<close> in 0..86399 and \<^verbatim>\<open>microseconds\<close> in 0..999999.
  Python's \<^verbatim>\<open>divmod\<close> and floor division agree with \<open>div\<close> and \<open>mod\<close> on \<open>int\<close>.
  The library's bound on the magnitude of a timedelta (999999999 days) is not
  modelled: arithmetic on durations is exact here.
  A naive datetime is modelled by its microseconds on the local clock's time line, so
  that the difference of two instants is a timedelta.
\<close>

type_synonym timedelta = int

type_synonym datetime = int

definition td_days :: "timedelta \<Rightarrow> int" where
  "td_days td = td div 86400000000"

definition td_seconds :: "timedelta \<Rightarrow> int" where
  "td_seconds td = (td div 1000000) mod 86400"

definition td_microseconds :: "timedelta \<Rightarrow> int" where
  "td_microseconds td = td mod 1000000"

text \<open>
  \<^verbatim>\<open>datetime.timedelta(days=d, hours=h, minutes=m, seconds=s, microseconds=us)\<close> with
  integer arguments: every argument is converted to microseconds and the sum is
  normalised.
\<close>

definition timedelta_new :: "int \<Rightarrow> int \<Rightarrow> int \<Rightarrow> int \<Rightarrow> int \<Rightarrow> timedelta" where
  "timedelta_new d h m s us = (((d * 24 + h) * 60 + m) * 60 + s) * 1000000 + us"

definition py_divmod :: "int \<Rightarrow> int \<Rightarrow> int \<times> int" where
  "py_divmod a b = (a div b, a mod b)"

section \<open>TimeInfo\<close>

text \<open>The named tuple \<^verbatim>\<open>TimeInfo(days, hours, minutes, seconds, microseconds)\<close>.\<close>

record TimeInfo =
  days :: int
  hours :: int
  minutes :: int
  seconds :: int
  microseconds :: int

text \<open>\<^verbatim>\<open>TimeInfo.from_timedelta\<close> (timer.py, lines 44-60).\<close>

definition from_timedelta :: "timedelta \<Rightarrow> TimeInfo" where
  "from_timedelta td =
     (let (minutes0, seconds1) = py_divmod (td_seconds td) 60;
          (hours1, minutes1) = py_divmod minutes0 60
      in \<lparr>days = td_days td, hours = hours1, minutes = minutes1, seconds = seconds1,
          microseconds = td_microseconds td\<rparr>)"

text \<open>
  \<^verbatim>\<open>datetime.timedelta(**timeinfo._asdict())\<close> (timer.py, line 110): the five fields
  are passed as the keyword arguments of the same names.
\<close>

definition timedelta_of_timeinfo :: "TimeInfo \<Rightarrow> timedelta" where
  "timedelta_of_timeinfo ti =
     timedelta_new (days ti) (hours ti) (minutes ti) (seconds ti) (microseconds ti)"

section \<open>Strings and integer literals\<close>

text \<open>
  Errors raised on the paths modelled here. The last four are all Python's
  \<^verbatim>\<open>ValueError\<close>: the one \<^verbatim>\<open>from_timestr\<close> raises itself (line 89, carrying the
  original string and the colon count of its message), the one \<^verbatim>\<open>int\<close> raises on a
  string that is no integer literal (carrying that string), and the one a tuple
  assignment raises when the number of values does not fit.
\<close>

datatype error =
    AssertionError
  | ValueError_colon_count string nat
  | ValueError_int_literal string
  | ValueError_unpack

text \<open>
  \<^verbatim>\<open>sub in s\<close> and \<^verbatim>\<open>s.partition(sep)\<close> for a non-empty separator: \<open>split_first\<close>
  finds the first occurrence of the separator and returns what stands before and
  after it.
\<close>

fun split_first :: "string \<Rightarrow> string \<Rightarrow> (string \<times> string) option" where
  "split_first sep [] = (if sep = [] then Some ([], []) else None)"
| "split_first sep (c # cs) =
     (if prefix sep (c # cs) then Some ([], drop (length sep) (c # cs))
      else map_option (\<lambda>(a, b). (c # a, b)) (split_first sep cs))"

definition str_in :: "string \<Rightarrow> string \<Rightarrow> bool" where
  "str_in sub s = (split_first sub s \<noteq> None)"

definition partition_py :: "string \<Rightarrow> string \<Rightarrow> string \<times> string \<times> string" where
  "partition_py s sep =
     (case split_first sep s of
        Some (a, b) \<Rightarrow> (a, sep, b)
      | None \<Rightarrow> (s, [], []))"

text \<open>\<^verbatim>\<open>s.count(c)\<close> and \<^verbatim>\<open>s.split(c)\<close> for a one-character separator.\<close>

definition str_count :: "string \<Rightarrow> char \<Rightarrow> nat" where
  "str_count s c = length (filter (\<lambda>x. x = c) s)"

fun split_py :: "char \<Rightarrow> string \<Rightarrow> string list" where
  "split_py sep [] = [[]]"
| "split_py sep (c # cs) =
     (if c = sep then [] # split_py sep cs
      else (case split_py sep cs of
              [] \<Rightarrow> [[c]]
            | p # ps \<Rightarrow> (c # p) # ps))"

text \<open>
  \<^verbatim>\<open>int(s)\<close> for a string: white space around the literal is dropped, a sign may
  come first, and the rest must be decimal digits, where a single underscore may
  stand between two digits. Anything else raises \<^verbatim>\<open>ValueError\<close>. The white space
  is the ASCII white space of \<^verbatim>\<open>str.isspace\<close>.
\<close>

definition is_space :: "char \<Rightarrow> bool" where
  "is_space c = (c \<in> set [CHR '' '', CHR 0x09, CHR 0x0A, CHR 0x0B, CHR 0x0C, CHR 0x0D,
                             CHR 0x1C, CHR 0x1D, CHR 0x1E, CHR 0x1F])"

definition strip :: "string \<Rightarrow> string" where
  "strip s = rev (dropWhile is_space (rev (dropWhile is_space s)))"

definition is_digit :: "char \<Rightarrow> bool" where
  "is_digit c = (c \<in> set ''0123456789'')"

definition digit_val :: "char \<Rightarrow> int" where
  "digit_val c = int (of_char c) - 48"

fun digits_ok :: "string \<Rightarrow> bool" where
  "digits_ok [] = False"
| "digits_ok [c] = is_digit c"
| "digits_ok (c # d # cs) =
     (if is_digit c then (if d = CHR ''_'' then digits_ok cs else digits_ok (d # cs))
      else False)"

definition decimal :: "string \<Rightarrow> int" where
  "decimal ds = foldl (\<lambda>acc c. 10 * acc + digit_val c) 0 ds"

definition py_int :: "string \<Rightarrow> error + int" where
  "py_int s =
     (let t = strip s;
          (negative, body) =
            (case t of
               [] \<Rightarrow> (False, [])
             | c # cs \<Rightarrow>
                 if c = CHR ''-'' then (True, cs)
                 else if c = CHR ''+'' then (False, cs)
                 else (False, t))
      in if digits_ok body
         then Inr (if negative then - decimal (filter is_digit body)
                   else decimal (filter is_digit body))
         else Inl (ValueError_int_literal s))"

section \<open>Parsing a duration\<close>

text \<open>
  \<^verbatim>\<open>TimeInfo.from_timestr\<close> (timer.py, lines 62-105), in the order of the source:
  the character check (lines 69-70), the days prefix (73-78), the colon count
  (80-92), the fraction of the seconds field (94-97) and the five conversions by
  \<^verbatim>\<open>int\<close>, evaluated from \<^verbatim>\<open>days\<close> to \<^verbatim>\<open>microseconds\<close> (98-104).
\<close>

definition permitted :: string where
  "permitted = ''01234567890:,. days''"

definition default :: string where
  "default = ''0''"

definition days_sep :: string where
  "days_sep = '' days, ''"

definition split_days :: "string \<Rightarrow> string \<times> string" where
  "split_days timestr =
     (if str_in days_sep timestr
      then (case partition_py timestr days_sep of (d, _, rest) \<Rightarrow> (d, rest))
      else (default, timestr))"

definition split_hms :: "string \<Rightarrow> string \<Rightarrow> error + (string \<times> string \<times> string)" where
  "split_hms original_timestr timestr =
     (let colon_count = str_count timestr CHR '':''
      in if colon_count = 0 then Inr (default, default, timestr)
         else if colon_count = 1 then
           (case split_py CHR '':'' timestr of
              [m, s] \<Rightarrow> Inr (default, m, s)
            | _ \<Rightarrow> Inl ValueError_unpack)
         else if colon_count = 2 then
           (case split_py CHR '':'' timestr of
              [h, m, s] \<Rightarrow> Inr (h, m, s)
            | _ \<Rightarrow> Inl ValueError_unpack)
         else Inl (ValueError_colon_count original_timestr colon_count))"

definition split_micro :: "string \<Rightarrow> string \<times> string" where
  "split_micro secs =
     (if str_in ''.'' secs
      then (case partition_py secs ''.'' of (s, _, us) \<Rightarrow> (s, us))
      else (secs, ''0''))"

definition bind_err :: "error + 'a \<Rightarrow> ('a \<Rightarrow> error + 'b) \<Rightarrow> error + 'b" where
  "bind_err r f = (case r of Inl e \<Rightarrow> Inl e | Inr x \<Rightarrow> f x)"

definition from_timestr :: "string \<Rightarrow> error + TimeInfo" where
  "from_timestr timestr =
     (if \<not> list_all (\<lambda>char. char \<in> set permitted) timestr then Inl AssertionError
      else
        (case split_days timestr of (days_s, timestr1) \<Rightarrow>
           bind_err (split_hms timestr timestr1) (\<lambda>(hours_s, minutes_s, seconds0).
             (case split_micro seconds0 of (seconds_s, microseconds_s) \<Rightarrow>
                bind_err (py_int days_s) (\<lambda>d.
                bind_err (py_int hours_s) (\<lambda>h.
                bind_err (py_int minutes_s) (\<lambda>m.
                bind_err (py_int seconds_s) (\<lambda>s.
                bind_err (py_int microseconds_s) (\<lambda>us.
                  Inr \<lparr>days = d, hours = h, minutes = m, seconds = s,
                       microseconds = us\<rparr>)))))))))"

text \<open>\<^verbatim>\<open>timedelta_from_timestr\<close> (timer.py, lines 108-110).\<close>

definition timedelta_from_timestr :: "string \<Rightarrow> error + timedelta" where
  "timedelta_from_timestr timestr =
     bind_err (from_timestr timestr) (\<lambda>timeinfo. Inr (timedelta_of_timeinfo timeinfo))"

section \<open>Properties of the field decomposition\<close>

lemma td_components:
  "td_days td * 86400000000 + td_seconds td * 1000000 + td_microseconds td = td"
proof -
  have a: "td = (td div 1000000) * 1000000 + td mod 1000000"
    by simp
  have b: "td div 1000000 = (td div 1000000 div 86400) * 86400 + (td div 1000000) mod 86400"
    by simp
  have c: "td div 1000000 div 86400 = td div 86400000000"
    by (simp add: div_mult2_eq [symmetric])
  show ?thesis
    unfolding td_days_def td_seconds_def td_microseconds_def
    using a b c by presburger
qed

text \<open>
  C9. For every timedelta \<open>td\<close>, rebuilding a timedelta from the five fields of
  \<open>from_timedelta td\<close> gives \<open>td\<close> back: the decomposition loses nothing.
\<close>

theorem from_timedelta_lossless:
  "timedelta_of_timeinfo (from_timedelta td) = td"
proof -
  let ?s = "td_seconds td"
  have s: "((?s div 60 div 60) * 60 + ?s div 60 mod 60) * 60 + ?s mod 60 = ?s"
    by simp
  have "timedelta_of_timeinfo (from_timedelta td)
      = td_days td * 86400000000
        + (((?s div 60 div 60) * 60 + ?s div 60 mod 60) * 60 + ?s mod 60) * 1000000
        + td_microseconds td"
    by (simp add: timedelta_of_timeinfo_def from_timedelta_def py_divmod_def
        timedelta_new_def algebra_simps)
  also have "\<dots> = td_days td * 86400000000 + ?s * 1000000 + td_microseconds td"
    by (simp only: s)
  also have "\<dots> = td"
    by (rule td_components)
  finally show ?thesis .
qed

end
